theory Spec2Isabelle
  imports Main "HOL-Library.Sublist"
begin

section \<open>JavaScript values\<close>

text \<open>
  The scripts are TypeScript run by ts-node; the values they handle at run time are
  JavaScript values. \<open>JFun\<close> stands for a built-in function object, named by the
  function's name; it only arises from a property inherited from \<open>Object.prototype\<close>.
  Numbers are restricted to integers. An object is the list of its own properties in
  insertion order, with distinct keys.
\<close>

datatype jsval =
    JUndefined
  | JNull
  | JBool bool
  | JNum int
  | JStr string
  | JArr "jsval list"
  | JObj "(string \<times> jsval) list"
  | JFun string

text \<open>JavaScript's ToBoolean, as used by \<open>if (v)\<close>, \<open>!v\<close> and \<open>v || w\<close>.\<close>

fun truthy :: "jsval \<Rightarrow> bool" where
  "truthy JUndefined = False"
| "truthy JNull = False"
| "truthy (JBool b) = b"
| "truthy (JNum n) = (n \<noteq> 0)"
| "truthy (JStr s) = (s \<noteq> [])"
| "truthy (JArr vs) = True"
| "truthy (JObj kvs) = True"
| "truthy (JFun f) = True"

text \<open>\<open>a || b\<close> on values.\<close>

definition js_or :: "jsval \<Rightarrow> jsval \<Rightarrow> jsval" where
  "js_or a b = (if truthy a then a else b)"



text \<open>Decimal digits of a natural number, as a template literal prints a number.\<close>

fun digits :: "nat \<Rightarrow> string" where
  "digits n = (if n < 10 then [''0123456789'' ! n]
               else digits (n div 10) @ [''0123456789'' ! (n mod 10)])"

definition show_int :: "int \<Rightarrow> string" where
  "show_int i = (if i < 0 then CHR ''-'' # digits (nat (- i)) else digits (nat i))"

fun join_with :: "string \<Rightarrow> string list \<Rightarrow> string" where
  "join_with sep [] = []"
| "join_with sep [x] = x"
| "join_with sep (x # y # ys) = x @ sep @ join_with sep (y # ys)"

text \<open>
  JavaScript's ToString, as applied by \<open>String(v)\<close>, by a template literal and by
  \<open>String.prototype.replace\<close> to the value its callback returns.
\<close>

fun toStr :: "jsval \<Rightarrow> string" where
  "toStr JUndefined = ''undefined''"
| "toStr JNull = ''null''"
| "toStr (JBool b) = (if b then ''true'' else ''false'')"
| "toStr (JNum n) = show_int n"
| "toStr (JStr s) = s"
| "toStr (JArr vs) =
     join_with '','' (map (\<lambda>v. if v = JUndefined \<or> v = JNull then [] else toStr v) vs)"
| "toStr (JObj kvs) = ''[object Object]''"
| "toStr (JFun f) = ''function '' @ f @ ''() { [native code] }''"

text \<open>
  A model of \<open>JSON.stringify\<close> on these values, used where a concrete run is
  evaluated. \<open>undefined\<close> and functions have no JSON text: they are left out of an
  object and written \<open>null\<close> in an array. The scripts themselves are modelled with
  \<open>JSON.stringify\<close> as a parameter, so the general statements hold for any function
  in its place.
\<close>

definition hex_digit :: "nat \<Rightarrow> char" where
  "hex_digit n = ''0123456789abcdef'' ! n"

definition json_escape :: "char \<Rightarrow> string" where
  "json_escape c =
     (if c = CHR 0x22 then [CHR 0x5C, CHR 0x22]
      else if c = CHR 0x5C then [CHR 0x5C, CHR 0x5C]
      else if c = CHR 0x08 then [CHR 0x5C, CHR ''b'']
      else if c = CHR 0x0C then [CHR 0x5C, CHR ''f'']
      else if c = CHR 0x0A then [CHR 0x5C, CHR ''n'']
      else if c = CHR 0x0D then [CHR 0x5C, CHR ''r'']
      else if c = CHR 0x09 then [CHR 0x5C, CHR ''t'']
      else if of_char c < (32 :: nat) then
        [CHR 0x5C, CHR ''u'', CHR ''0'', CHR ''0'',
         hex_digit (of_char c div 16), hex_digit (of_char c mod 16)]
      else [c])"

definition json_quote :: "string \<Rightarrow> string" where
  "json_quote s = [CHR 0x22] @ concat (map json_escape s) @ [CHR 0x22]"

fun stringify_opt :: "jsval \<Rightarrow> string option" where
  "stringify_opt JUndefined = None"
| "stringify_opt (JFun f) = None"
| "stringify_opt JNull = Some ''null''"
| "stringify_opt (JBool b) = Some (if b then ''true'' else ''false'')"
| "stringify_opt (JNum n) = Some (show_int n)"
| "stringify_opt (JStr s) = Some (json_quote s)"
| "stringify_opt (JArr vs) =
     Some (''['' @ join_with '',''
             (map (\<lambda>v. case stringify_opt v of None \<Rightarrow> ''null'' | Some s \<Rightarrow> s) vs) @ '']'')"
| "stringify_opt (JObj kvs) =
     Some (''{'' @ join_with '',''
             (concat (map (\<lambda>kv. case stringify_opt (snd kv) of
                                   None \<Rightarrow> []
                                 | Some s \<Rightarrow> [json_quote (fst kv) @ '':'' @ s]) kvs)) @ ''}'')"

definition JSON_stringify :: "jsval \<Rightarrow> jsval" where
  "JSON_stringify v = (case stringify_opt v of None \<Rightarrow> JUndefined | Some s \<Rightarrow> JStr s)"

text \<open>
  The properties every plain object inherits from \<open>Object.prototype\<close>. All of them are
  functions but \<open>__proto__\<close>, which reads as the prototype object itself.
\<close>

definition object_prototype :: "(string \<times> jsval) list" where
  "object_prototype =
     [(''constructor'', JFun ''Object''),
      (''__defineGetter__'', JFun ''__defineGetter__''),
      (''__defineSetter__'', JFun ''__defineSetter__''),
      (''hasOwnProperty'', JFun ''hasOwnProperty''),
      (''__lookupGetter__'', JFun ''__lookupGetter__''),
      (''__lookupSetter__'', JFun ''__lookupSetter__''),
      (''isPrototypeOf'', JFun ''isPrototypeOf''),
      (''propertyIsEnumerable'', JFun ''propertyIsEnumerable''),
      (''toString'', JFun ''toString''),
      (''valueOf'', JFun ''valueOf''),
      (''__proto__'', JObj []),
      (''toLocaleString'', JFun ''toLocaleString'')]"

text \<open>
  \<open>obj[key]\<close> on a plain object with a key computed at run time: the object's own
  property, else the inherited one, else \<open>undefined\<close>.
\<close>

definition obj_get :: "(string \<times> jsval) list \<Rightarrow> string \<Rightarrow> jsval" where
  "obj_get kvs k =
     (case map_of kvs k of
        Some v \<Rightarrow> v
      | None \<Rightarrow> (case map_of object_prototype k of Some v \<Rightarrow> v | None \<Rightarrow> JUndefined))"

text \<open>
  \<open>v.key\<close> with a key written in the source. Reading a property of \<open>undefined\<close> or
  \<open>null\<close> throws a TypeError; a plain object gives the property; the other values have
  none of the properties the scripts read this way (\<open>session_id\<close>, \<open>task_id\<close>,
  \<open>artifact_id\<close>, \<open>status\<close>, \<open>name\<close>, \<open>type\<close>, \<open>label\<close>, ...).
\<close>

fun get_field :: "jsval \<Rightarrow> string \<Rightarrow> string + jsval" where
  "get_field JUndefined k =
     Inl (''Cannot read properties of undefined (reading '' @ [CHR 0x27] @ k @ [CHR 0x27] @ '')'')"
| "get_field JNull k =
     Inl (''Cannot read properties of null (reading '' @ [CHR 0x27] @ k @ [CHR 0x27] @ '')'')"
| "get_field (JObj kvs) k = Inr (obj_get kvs k)"
| "get_field v k = Inr JUndefined"


section \<open>Module type ids (both versions of the deploy script)\<close>

text \<open>The table \<open>types\<close> of \<open>getModuleTypeId\<close>, the same in both versions of the script.\<close>

definition module_types :: "(string \<times> jsval) list" where
  "module_types =
     [(''action'', JNum 4), (''search'', JNum 9), (''trigger'', JNum 1),
      (''instant_trigger'', JNum 5), (''responder'', JNum 11), (''universal'', JNum 12)]"

text \<open>\<open>getModuleTypeId\<close> of scripts/deploy.ts: \<open>return types[type] || 4\<close>.\<close>

definition getModuleTypeId :: "string \<Rightarrow> jsval" where
  "getModuleTypeId type = js_or (obj_get module_types type) (JNum 4)"

text \<open>\<open>getModuleTypeId\<close> of the earlier version of the deploy script.\<close>

definition getModuleTypeId_v1 :: "string \<Rightarrow> jsval" where
  "getModuleTypeId_v1 type = js_or (obj_get module_types type) (JNum 4)"

section \<open>Parameter validation (scripts/test-makecom-validation.ts)\<close>





subsection \<open>Sample inputs and the notion of a collection\<close>




section \<open>Parameter processing (scripts/test-module.ts)\<close>





section \<open>The IML template processor (scripts/test-module.ts)\<close>

text \<open>The class \<open>\w\<close> of the regular expressions: letters, digits and the underscore.\<close>

definition is_word_char :: "char \<Rightarrow> bool" where
  "is_word_char c =
     (c \<in> set ''abcdefghijklmnopqrstuvwxyzABCDEFGHIJKLMNOPQRSTUVWXYZ0123456789_'')"

fun strip_prefix :: "string \<Rightarrow> string \<Rightarrow> string option" where
  "strip_prefix [] s = Some s"
| "strip_prefix (p # ps) [] = None"
| "strip_prefix (p # ps) (c # cs) = (if p = c then strip_prefix ps cs else None)"

text \<open>
  The four regular expressions of \<open>processImlTemplate\<close>:
  \<open>Placeholder name\<close> is \<open>/\{\{name\.(\w+)\}\}/\<close>, for the names \<open>parameters\<close>, \<open>temp\<close>
  and \<open>body\<close>, and \<open>ParseJson\<close> is \<open>/\{\{parseJSON\(([^)]+)\)\}\}/\<close>.
\<close>

datatype pattern = Placeholder string | ParseJson

text \<open>
  A match of the pattern that starts at the head of the string: the text of the group
  and the rest of the string after the match. The group is greedy; as the character
  that must follow it is outside the class of the group, a shorter group never matches
  where the longest does not.
\<close>

fun match_at :: "pattern \<Rightarrow> string \<Rightarrow> (string \<times> string) option" where
  "match_at (Placeholder name) s =
     (case strip_prefix (''{{'' @ name @ ''.'') s of
        None \<Rightarrow> None
      | Some r \<Rightarrow>
          if takeWhile is_word_char r = [] then None
          else (case strip_prefix ''}}'' (dropWhile is_word_char r) of
                  None \<Rightarrow> None
                | Some rest \<Rightarrow> Some (takeWhile is_word_char r, rest)))"
| "match_at ParseJson s =
     (case strip_prefix ''{{parseJSON('' s of
        None \<Rightarrow> None
      | Some r \<Rightarrow>
          if takeWhile (\<lambda>c. c \<noteq> CHR '')'') r = [] then None
          else (case strip_prefix '')}}'' (dropWhile (\<lambda>c. c \<noteq> CHR '')'') r) of
                  None \<Rightarrow> None
                | Some rest \<Rightarrow> Some (takeWhile (\<lambda>c. c \<noteq> CHR '')'') r, rest)))"

text \<open>
  \<open>str.replace(regex, callback)\<close> with the flag \<open>g\<close>: from left to right, every match
  is replaced by the string of the value the callback returns for its group, and the
  search goes on after the match; the text put in is not searched again. \<open>Inl\<close> is the
  error thrown by a callback.
\<close>

function replace_all ::
  "pattern \<Rightarrow> (string \<Rightarrow> string + jsval) \<Rightarrow> string \<Rightarrow> string + string" where
  "replace_all p cb [] = Inr []"
| "replace_all p cb (c # cs) =
     (case match_at p (c # cs) of
        None \<Rightarrow>
          (case replace_all p cb cs of Inl e \<Rightarrow> Inl e | Inr out \<Rightarrow> Inr (c # out))
      | Some (key, rest) \<Rightarrow>
          (case cb key of
             Inl e \<Rightarrow> Inl e
           | Inr v \<Rightarrow>
               (case replace_all p cb rest of
                  Inl e \<Rightarrow> Inl e
                | Inr out \<Rightarrow> Inr (toStr v @ out))))"
  by pat_completeness auto
termination
proof (relation "measure (\<lambda>(p, cb, s). length s)")
  show "wf (measure (\<lambda>(p, cb, s). length s))" by simp
next
  fix p :: pattern and cb :: "string \<Rightarrow> string + jsval" and c cs
  show "((p, cb, cs), (p, cb, c # cs)) \<in> measure (\<lambda>(p, cb, s). length s)" by simp
next
  fix p :: pattern and cb :: "string \<Rightarrow> string + jsval" and c cs x2 key rest
  assume m: "match_at p (c # cs) = Some x2" "(key, rest) = x2"
  have strip: "length r \<le> length s" if "strip_prefix q s = Some r" for q s r
    using that by (induction q s rule: strip_prefix.induct) (auto split: if_splits)
  have strip_less: "length r < length s" if "strip_prefix q s = Some r" "q \<noteq> []" for q s r
    using that strip [of "tl q" "tl s" r] by (cases q; cases s) (auto split: if_splits)
  have "length rest < length (c # cs)"
  proof (cases p)
    case (Placeholder name)
    with m obtain r where r: "strip_prefix (''{{'' @ name @ ''.'') (c # cs) = Some r"
        "strip_prefix ''}}'' (dropWhile is_word_char r) = Some rest"
      by (auto split: option.splits if_splits)
    from strip_less [OF r(1)] have "length r < length (c # cs)" by simp
    moreover from strip [OF r(2)] have "length rest \<le> length r"
      using length_dropWhile_le [of is_word_char r] by simp
    ultimately show ?thesis by simp
  next
    case ParseJson
    with m obtain r where r: "strip_prefix ''{{parseJSON('' (c # cs) = Some r"
        "strip_prefix '')}}'' (dropWhile (\<lambda>c. c \<noteq> CHR '')'') r) = Some rest"
      by (auto split: option.splits if_splits)
    from strip_less [OF r(1)] have "length r < length (c # cs)" by simp
    moreover from strip [OF r(2)] have "length rest \<le> length r"
      using length_dropWhile_le [of "\<lambda>c. c \<noteq> CHR '')''" r] by simp
    ultimately show ?thesis by simp
  qed
  then show "((p, cb, rest), (p, cb, c # cs)) \<in> measure (\<lambda>(p, cb, s). length s)" by simp
qed

declare replace_all.simps [simp del]









subsection \<open>Templates as sequences of pieces\<close>















section \<open>The rank workflow (scripts/test-module.ts)\<close>

subsection \<open>Requests and the API\<close>

text \<open>
  A call of \<open>apiRequest\<close> is recorded with its method, its endpoint and the object passed
  as body (\<open>JUndefined\<close> when there is none); \<open>setTimeout\<close> is recorded with its delay in
  milliseconds. The trace of a run is the list of these events in the order they happen.
\<close>

record request =
  req_method :: string
  req_endpoint :: string
  req_body :: jsval

datatype event = Request request | Sleep nat

record api_response =
  res_status :: nat
  res_data :: jsval

text \<open>
  The API is outside the repository: it is any function from the requests already made
  and the present request to a reply. \<open>Inl\<close> is a rejection of \<open>fetch\<close> or of
  \<open>response.json()\<close>, with the message of the error.
\<close>

type_synonym server = "request list \<Rightarrow> request \<Rightarrow> string + api_response"

fun requests_of :: "event list \<Rightarrow> request list" where
  "requests_of [] = []"
| "requests_of (Request r # es) = r # requests_of es"
| "requests_of (Sleep d # es) = requests_of es"

text \<open>
  A computation that may throw and that extends the trace (of type \<open>'t\<close>): \<open>Inl\<close> is
  the message of the error thrown.
\<close>

type_synonym ('t, 'a) run = "'t \<Rightarrow> (string + 'a) \<times> 't"

type_synonym 'a io = "(event list, 'a) run"

definition ret :: "'a \<Rightarrow> ('t, 'a) run" where
  "ret x tr = (Inr x, tr)"

definition throw :: "string \<Rightarrow> ('t, 'a) run" where
  "throw e tr = (Inl e, tr)"

definition lift :: "string + 'a \<Rightarrow> ('t, 'a) run" where
  "lift r tr = (r, tr)"

definition io_bind :: "('t, 'a) run \<Rightarrow> ('a \<Rightarrow> ('t, 'b) run) \<Rightarrow> ('t, 'b) run" where
  "io_bind m f tr = (case m tr of (Inl e, tr') \<Rightarrow> (Inl e, tr') | (Inr x, tr') \<Rightarrow> f x tr')"

definition sleep :: "nat \<Rightarrow> unit io" where
  "sleep ms tr = (Inr (), tr @ [Sleep ms])"

text \<open>\<open>apiRequest\<close>: one request, no handler around it, so a rejection goes to the caller.\<close>

definition apiRequest :: "server \<Rightarrow> string \<Rightarrow> string \<Rightarrow> jsval \<Rightarrow> api_response io" where
  "apiRequest srv method endpoint body tr =
     (let r = \<lparr>req_method = method, req_endpoint = endpoint, req_body = body\<rparr>
      in (srv (requests_of tr) r, tr @ [Request r]))"

subsection \<open>The five steps of testStartRankTaskFlow\<close>

definition TEST_DATA :: jsval where
  "TEST_DATA =
     JArr [JObj [(''name'', JStr ''OpenAI''), (''description'', JStr ''AI research company'')],
           JObj [(''name'', JStr ''Stripe''), (''description'', JStr ''Payment processing platform'')],
           JObj [(''name'', JStr ''Anthropic''), (''description'', JStr ''AI safety company'')]]"

text \<open>
  Step 1, \<open>module.parameters.find((p) => p.name === 'inputData')\<close>: no request is made;
  the step throws when the module has no array of parameters or an entry before the
  match is \<open>null\<close>.
\<close>

fun find_inputData :: "jsval list \<Rightarrow> string + jsval" where
  "find_inputData [] = Inr JUndefined"
| "find_inputData (p # ps) =
     (case get_field p ''name'' of
        Inl e \<Rightarrow> Inl e
      | Inr n \<Rightarrow> if n = JStr ''inputData'' then Inr p else find_inputData ps)"

definition checkParameterTypes :: "jsval \<Rightarrow> string + jsval" where
  "checkParameterTypes module =
     (case get_field module ''parameters'' of
        Inl e \<Rightarrow> Inl e
      | Inr (JArr ps) \<Rightarrow> find_inputData ps
      | Inr JUndefined \<Rightarrow>
          Inl (''Cannot read properties of undefined (reading '' @ [CHR 0x27] @ ''find'' @ [CHR 0x27] @ '')'')
      | Inr JNull \<Rightarrow>
          Inl (''Cannot read properties of null (reading '' @ [CHR 0x27] @ ''find'' @ [CHR 0x27] @ '')'')
      | Inr _ \<Rightarrow> Inl ''module.parameters.find is not a function'')"

text \<open>
  The check after each POST: \<open>if (res.status !== 200 && res.status !== 201) throw ...\<close>.
  \<open>json_stringify\<close> is the runtime's \<open>JSON.stringify\<close>, a parameter of the model.
\<close>

definition expect_ok :: "(jsval \<Rightarrow> jsval) \<Rightarrow> string \<Rightarrow> api_response \<Rightarrow> api_response io" where
  "expect_ok json_stringify what res =
     (if res_status res \<noteq> 200 \<and> res_status res \<noteq> 201
      then throw (what @ toStr (json_stringify (res_data res)))
      else ret res)"

text \<open>Step 2: create the session.\<close>

definition session_request :: request where
  "session_request =
     \<lparr>req_method = ''POST'', req_endpoint = ''/sessions/create'',
      req_body = JObj [(''name'', JStr ''Test Rank Session'')]\<rparr>"

definition createSession :: "(jsval \<Rightarrow> jsval) \<Rightarrow> server \<Rightarrow> jsval io" where
  "createSession json_stringify srv =
     io_bind (apiRequest srv (req_method session_request) (req_endpoint session_request)
                (req_body session_request))
       (\<lambda>sessionRes. io_bind (expect_ok json_stringify ''Failed to create session: '' sessionRes)
       (\<lambda>_. lift (get_field (res_data sessionRes) ''session_id'')))"

text \<open>Step 3: create the artifact from the test data.\<close>

definition artifact_request :: "jsval \<Rightarrow> request" where
  "artifact_request sessionId =
     \<lparr>req_method = ''POST'', req_endpoint = ''/tasks'',
      req_body = JObj [(''session_id'', sessionId),
                       (''payload'', JObj [(''task_type'', JStr ''create_group''),
                                           (''query'', JObj [(''data_to_create'', TEST_DATA)])])]\<rparr>"

definition createArtifact :: "(jsval \<Rightarrow> jsval) \<Rightarrow> server \<Rightarrow> jsval \<Rightarrow> jsval io" where
  "createArtifact json_stringify srv sessionId =
     io_bind (apiRequest srv (req_method (artifact_request sessionId))
                (req_endpoint (artifact_request sessionId)) (req_body (artifact_request sessionId)))
       (\<lambda>artifactRes. io_bind (expect_ok json_stringify ''Failed to create artifact: '' artifactRes)
       (\<lambda>_. lift (get_field (res_data artifactRes) ''task_id'')))"

text \<open>
  Step 4: wait for the artifact. \<open>pollArtifact\<close> is the \<open>for\<close> loop from its counter \<open>i\<close>
  on; it returns the value of \<open>artifactId\<close> when the loop is left, which is \<open>null\<close> when
  the loop has run out.
\<close>

definition status_request :: "jsval \<Rightarrow> request" where
  "status_request artifactTaskId =
     \<lparr>req_method = ''GET'', req_endpoint = ''/tasks/'' @ toStr artifactTaskId @ ''/status'',
      req_body = JUndefined\<rparr>"

function pollArtifact :: "(jsval \<Rightarrow> jsval) \<Rightarrow> server \<Rightarrow> jsval \<Rightarrow> nat \<Rightarrow> jsval io" where
  "pollArtifact json_stringify srv artifactTaskId i tr =
     (if i < 30 then
        (case apiRequest srv (req_method (status_request artifactTaskId))
                (req_endpoint (status_request artifactTaskId))
                (req_body (status_request artifactTaskId)) tr of
           (Inl e, tr1) \<Rightarrow> (Inl e, tr1)
         | (Inr statusRes, tr1) \<Rightarrow>
             (case get_field (res_data statusRes) ''artifact_id'' of
                Inl e \<Rightarrow> (Inl e, tr1)
              | Inr artifact_id \<Rightarrow>
                  if truthy artifact_id then (Inr artifact_id, tr1)
                  else (case get_field (res_data statusRes) ''status'' of
                          Inl e \<Rightarrow> (Inl e, tr1)
                        | Inr st \<Rightarrow>
                            if st = JStr ''failed'' then
                              (Inl (''Artifact creation failed: '' @
                                    toStr (json_stringify (res_data statusRes))), tr1)
                            else (case sleep 1000 tr1 of
                                    (_, tr2) \<Rightarrow>
                                      pollArtifact json_stringify srv artifactTaskId (i + 1) tr2))))
      else (Inr JNull, tr))"
  by pat_completeness auto
termination
  by (relation "measure (\<lambda>(js, srv, t, i, tr). 30 - i)") auto

declare pollArtifact.simps [simp del]

definition waitForArtifact :: "(jsval \<Rightarrow> jsval) \<Rightarrow> server \<Rightarrow> jsval \<Rightarrow> jsval io" where
  "waitForArtifact json_stringify srv artifactTaskId =
     io_bind (pollArtifact json_stringify srv artifactTaskId 0)
       (\<lambda>artifactId. if \<not> truthy artifactId then throw ''Timeout waiting for artifact''
                      else ret artifactId)"

text \<open>Step 5: create the rank task on the artifact.\<close>

definition rank_request :: "jsval \<Rightarrow> jsval \<Rightarrow> request" where
  "rank_request sessionId artifactId =
     \<lparr>req_method = ''POST'', req_endpoint = ''/tasks'',
      req_body =
        JObj [(''session_id'', sessionId),
              (''payload'',
               JObj [(''task_type'', JStr ''deep_rank''),
                     (''query'',
                      JObj [(''task'', JStr ''Rank by relevance to AI''),
                            (''field_to_sort_by'', JStr ''rank_score''),
                            (''ascending_order'', JBool False),
                            (''response_schema'',
                             JObj [(''_model_name'', JStr ''RankResponse''),
                                   (''rank_score'',
                                    JObj [(''type'', JStr ''float''),
                                          (''optional'', JBool False)])])]),
                     (''input_artifacts'', JArr [artifactId]),
                     (''context_artifacts'', JArr [])])]\<rparr>"

definition createRankTask :: "(jsval \<Rightarrow> jsval) \<Rightarrow> server \<Rightarrow> jsval \<Rightarrow> jsval \<Rightarrow> jsval io" where
  "createRankTask json_stringify srv sessionId artifactId =
     io_bind (apiRequest srv (req_method (rank_request sessionId artifactId))
                (req_endpoint (rank_request sessionId artifactId))
                (req_body (rank_request sessionId artifactId)))
       (\<lambda>rankRes. io_bind (expect_ok json_stringify ''Failed to create rank task: '' rankRes)
       (\<lambda>_. lift (get_field (res_data rankRes) ''task_id'')))"

subsection \<open>The whole flow\<close>

record TestResult =
  test_name :: string
  test_passed :: bool
  test_error :: "string option"
  test_details :: "jsval option"

text \<open>The body of the \<open>try\<close> block; its value is the \<open>details\<close> of the passed result.\<close>

definition rankTaskFlow_steps :: "(jsval \<Rightarrow> jsval) \<Rightarrow> server \<Rightarrow> jsval \<Rightarrow> jsval io" where
  "rankTaskFlow_steps json_stringify srv module =
     io_bind (lift (checkParameterTypes module))
       (\<lambda>_. io_bind (createSession json_stringify srv)
       (\<lambda>sessionId. io_bind (createArtifact json_stringify srv sessionId)
       (\<lambda>artifactTaskId. io_bind (waitForArtifact json_stringify srv artifactTaskId)
       (\<lambda>artifactId. io_bind (createRankTask json_stringify srv sessionId artifactId)
       (\<lambda>rankTaskId.
          ret (JObj [(''sessionId'', sessionId), (''artifactId'', artifactId),
                     (''rankTaskId'', rankTaskId)]))))))"

text \<open>The two results the function can push.\<close>

definition failed_result :: "string \<Rightarrow> TestResult" where
  "failed_result e =
     \<lparr>test_name = ''api:startRankTask'', test_passed = False,
      test_error = Some e, test_details = None\<rparr>"

definition passed_result :: "jsval \<Rightarrow> TestResult" where
  "passed_result d =
     \<lparr>test_name = ''api:startRankTask'', test_passed = True,
      test_error = None, test_details = Some d\<rparr>"

text \<open>
  \<open>testStartRankTaskFlow\<close>, from the parsed module definition on: the result it pushes
  and the trace of the run. An error thrown in the \<open>try\<close> block ends the run there and
  becomes the \<open>error\<close> of a failed result.
\<close>

definition testStartRankTaskFlow ::
  "(jsval \<Rightarrow> jsval) \<Rightarrow> server \<Rightarrow> jsval \<Rightarrow> TestResult \<times> event list" where
  "testStartRankTaskFlow json_stringify srv module =
     (case rankTaskFlow_steps json_stringify srv module [] of
        (Inl e, tr) \<Rightarrow> (failed_result e, tr)
      | (Inr d, tr) \<Rightarrow> (passed_result d, tr))"

subsection \<open>Notions used to state the properties of the flow\<close>

text \<open>
  The outcome of a POST step as a function of the reply: the error thrown, or the
  property \<open>key\<close> read from the data of a reply with status 200 or 201.
\<close>

definition post_outcome :: "(jsval \<Rightarrow> jsval) \<Rightarrow> string \<Rightarrow> string \<Rightarrow> string + api_response \<Rightarrow> string + jsval" where
  "post_outcome json_stringify what key reply =
     (case reply of
        Inl e \<Rightarrow> Inl e
      | Inr res \<Rightarrow>
          if res_status res \<noteq> 200 \<and> res_status res \<noteq> 201
          then Inl (what @ toStr (json_stringify (res_data res)))
          else get_field (res_data res) key)"

text \<open>
  A status reply is pending when the loop goes on after it: it has no truthy
  \<open>artifact_id\<close> and its \<open>status\<close> is not \<open>failed\<close>.
\<close>

definition is_pending :: "string + api_response \<Rightarrow> bool" where
  "is_pending reply =
     (case reply of
        Inl e \<Rightarrow> False
      | Inr res \<Rightarrow>
          (case get_field (res_data res) ''artifact_id'' of
             Inl e \<Rightarrow> False
           | Inr aid \<Rightarrow> \<not> truthy aid \<and> get_field (res_data res) ''status'' \<noteq> Inr (JStr ''failed'')))"

text \<open>The way the loop is left on a reply that is not pending.\<close>

definition poll_decision :: "(jsval \<Rightarrow> jsval) \<Rightarrow> string + api_response \<Rightarrow> string + jsval" where
  "poll_decision json_stringify reply =
     (case reply of
        Inl e \<Rightarrow> Inl e
      | Inr res \<Rightarrow>
          (case get_field (res_data res) ''artifact_id'' of
             Inl e \<Rightarrow> Inl e
           | Inr aid \<Rightarrow>
               if truthy aid then Inr aid
               else Inl (''Artifact creation failed: '' @ toStr (json_stringify (res_data res)))))"

text \<open>\<open>n\<close> rounds of the loop that went on: a status request, then the delay.\<close>

definition rounds :: "jsval \<Rightarrow> nat \<Rightarrow> event list" where
  "rounds tid n = concat (replicate n [Request (status_request tid), Sleep 1000])"

text \<open>
  The reply to the status request number \<open>j\<close> (from 0), when \<open>before\<close> are the requests
  made before the loop.
\<close>

definition poll_reply :: "server \<Rightarrow> jsval \<Rightarrow> request list \<Rightarrow> nat \<Rightarrow> string + api_response" where
  "poll_reply srv tid before j =
     srv (before @ replicate j (status_request tid)) (status_request tid)"

text \<open>A field of the \<open>payload\<close> of the body of a request.\<close>

definition payload_field :: "request \<Rightarrow> string \<Rightarrow> string + jsval" where
  "payload_field r k =
     (case get_field (req_body r) ''payload'' of Inl e \<Rightarrow> Inl e | Inr p \<Rightarrow> get_field p k)"


subsection \<open>Sample runs\<close>

text \<open>
  APIs for concrete runs: one that answers the requests in turn from a script, and
  rejects every request after the end of the script; one that gives the same answer to
  every request.
\<close>

definition ok_reply :: "jsval \<Rightarrow> string + api_response" where
  "ok_reply d = Inr \<lparr>res_status = 200, res_data = d\<rparr>"

definition api_scripted :: "(string + api_response) list \<Rightarrow> server" where
  "api_scripted script before r =
     (if length before < length script then script ! length before else Inl ''fetch failed'')"


text \<open>A module definition with an \<open>inputData\<close> parameter.\<close>

definition sample_module :: jsval where
  "sample_module =
     JObj [(''label'', JStr ''Start Rank Task''), (''type'', JStr ''action''),
           (''parameters'',
            JArr [JObj [(''name'', JStr ''sessionName''), (''type'', JStr ''text'')],
                  JObj [(''name'', JStr ''inputData''), (''type'', JStr ''array'')]])]"

text \<open>
  An API on which the run passes after one pending status reply; one that rejects the
  second request; one whose reply to the create-session request has no \<open>session_id\<close>.
\<close>

definition sample_api :: server where
  "sample_api =
     api_scripted [ok_reply (JObj [(''session_id'', JStr ''s1'')]),
                   ok_reply (JObj [(''task_id'', JStr ''t1'')]),
                   ok_reply (JObj [(''status'', JStr ''running'')]),
                   ok_reply (JObj [(''status'', JStr ''completed''), (''artifact_id'', JStr ''a1'')]),
                   ok_reply (JObj [(''task_id'', JStr ''t2'')])]"


definition sample_api_no_session_id :: server where
  "sample_api_no_session_id =
     api_scripted [ok_reply (JObj []),
                   ok_reply (JObj [(''task_id'', JStr ''t1'')]),
                   ok_reply (JObj [(''status'', JStr ''completed''), (''artifact_id'', JStr ''a1'')]),
                   ok_reply (JObj [(''task_id'', JStr ''t2'')])]"

section \<open>The deploy script (scripts/deploy.ts)\<close>

subsection \<open>Requests to the management API\<close>

datatype http_method = GET | POST | PUT

text \<open>
  The endpoints the script calls. \<open>endpoint_path\<close> is the string the script builds for
  each, from \<open>MAKE_APP_ID\<close> and \<open>MAKE_APP_VERSION\<close>.
\<close>

datatype endpoint =
    EBase
  | ECommon
  | EConnections
  | EConnectionApi string
  | EConnectionParameters string
  | EModules
  | EModuleApi string
  | EModuleExpect string
  | EModuleInterface string
  | EModuleSamples string
  | ERpcs
  | ERpcApi string
  | ERpcParameters string

fun endpoint_path :: "string \<Rightarrow> string \<Rightarrow> endpoint \<Rightarrow> string" where
  "endpoint_path app ver EBase = ''/'' @ app @ ''/'' @ ver @ ''/base''"
| "endpoint_path app ver ECommon = ''/'' @ app @ ''/'' @ ver @ ''/common''"
| "endpoint_path app ver EConnections = ''/'' @ app @ ''/connections''"
| "endpoint_path app ver (EConnectionApi n) = ''/'' @ app @ ''/connections/'' @ n @ ''/api''"
| "endpoint_path app ver (EConnectionParameters n) =
     ''/'' @ app @ ''/connections/'' @ n @ ''/parameters''"
| "endpoint_path app ver EModules = ''/'' @ app @ ''/'' @ ver @ ''/modules''"
| "endpoint_path app ver (EModuleApi n) = ''/'' @ app @ ''/'' @ ver @ ''/modules/'' @ n @ ''/api''"
| "endpoint_path app ver (EModuleExpect n) =
     ''/'' @ app @ ''/'' @ ver @ ''/modules/'' @ n @ ''/expect''"
| "endpoint_path app ver (EModuleInterface n) =
     ''/'' @ app @ ''/'' @ ver @ ''/modules/'' @ n @ ''/interface''"
| "endpoint_path app ver (EModuleSamples n) =
     ''/'' @ app @ ''/'' @ ver @ ''/modules/'' @ n @ ''/samples''"
| "endpoint_path app ver ERpcs = ''/'' @ app @ ''/'' @ ver @ ''/rpcs''"
| "endpoint_path app ver (ERpcApi n) = ''/'' @ app @ ''/'' @ ver @ ''/rpcs/'' @ n @ ''/api''"
| "endpoint_path app ver (ERpcParameters n) =
     ''/'' @ app @ ''/'' @ ver @ ''/rpcs/'' @ n @ ''/parameters''"

text \<open>
  A call of \<open>makeRequest\<close> is recorded with its arguments; the trace of a run is the list
  of the calls in the order they are made. The management API is any function from
  the calls already made and the present call to a reply; \<open>Inl\<close> is a rejection of
  \<open>fetch\<close> or of \<open>response.text()\<close>.
\<close>

record deploy_request =
  dq_method :: http_method
  dq_endpoint :: endpoint
  dq_data :: jsval
  dq_content_type :: string



type_synonym 'a deploy_io = "(deploy_request list, 'a) run"


subsection \<open>Maps and iteration\<close>













subsection \<open>The component deploy functions\<close>

record DeployResult =
  dr_success :: bool
  dr_component :: string
  dr_error :: "string option"

text \<open>
  \<open>try { body; return {success: true, component} } catch (error) { return {success:
  false, component, error: error.message} }\<close>.
\<close>

definition attempt :: "string \<Rightarrow> 'a deploy_io \<Rightarrow> DeployResult deploy_io" where
  "attempt component body tr =
     (case body tr of
        (Inl e, tr') \<Rightarrow>
          (Inr \<lparr>dr_success = False, dr_component = component, dr_error = Some e\<rparr>, tr')
      | (Inr x, tr') \<Rightarrow>
          (Inr \<lparr>dr_success = True, dr_component = component, dr_error = None\<rparr>, tr'))"












subsection \<open>main\<close>














section \<open>The earlier version of the deploy script\<close>









subsection \<open>Notions used to state the properties of the deploy scripts\<close>


















section \<open>Theorems\<close>

lemma getModuleTypeId_versions_agree: "getModuleTypeId_v1 t = getModuleTypeId t"
  by (simp add: getModuleTypeId_def getModuleTypeId_v1_def)

lemma getModuleTypeId_table:
  "getModuleTypeId ''action'' = JNum 4"
  "getModuleTypeId ''search'' = JNum 9"
  "getModuleTypeId ''trigger'' = JNum 1"
  "getModuleTypeId ''instant_trigger'' = JNum 5"
  "getModuleTypeId ''responder'' = JNum 11"
  "getModuleTypeId ''universal'' = JNum 12"
  by (simp_all add: getModuleTypeId_def obj_get_def module_types_def js_or_def)

lemma getModuleTypeId_default:
  assumes "t \<notin> fst ` set module_types" and "t \<notin> fst ` set object_prototype"
  shows "getModuleTypeId t = JNum 4"
proof -
  have "map_of module_types t = None" "map_of object_prototype t = None"
    using assms by (simp_all add: map_of_eq_None_iff)
  then show ?thesis
    by (simp add: getModuleTypeId_def obj_get_def js_or_def)
qed


subsection \<open>The polling loop\<close>

lemma requests_of_append: "requests_of (a @ b) = requests_of a @ requests_of b"
  by (induction a rule: requests_of.induct) simp_all

lemma requests_of_rounds: "requests_of (rounds tid n) = replicate n (status_request tid)"
  by (induction n) (simp_all add: rounds_def)

lemma apiRequest_eq:
  "apiRequest srv (req_method r) (req_endpoint r) (req_body r) tr =
     (srv (requests_of tr) r, tr @ [Request r])" for r :: request
  by (cases r) (simp add: apiRequest_def Let_def)

lemma get_field_throws_all:
  "get_field d k = Inr v \<Longrightarrow> get_field d k' = Inl e \<Longrightarrow> False"
  by (cases d) simp_all

lemma poll_done: "pollArtifact js srv tid 30 tr = (Inr JNull, tr)"
  by (simp add: pollArtifact.simps)

lemma poll_pending:
  assumes "i < 30" and "is_pending (srv (requests_of tr) (status_request tid))"
  shows "pollArtifact js srv tid i tr =
         pollArtifact js srv tid (Suc i) (tr @ [Request (status_request tid), Sleep 1000])"
  using assms
  by (subst pollArtifact.simps)
     (auto simp: apiRequest_eq is_pending_def sleep_def split: sum.splits
        dest: get_field_throws_all)

lemma poll_decisive:
  assumes "i < 30" and "\<not> is_pending (srv (requests_of tr) (status_request tid))"
  shows "pollArtifact js srv tid i tr =
         (poll_decision js (srv (requests_of tr) (status_request tid)),
          tr @ [Request (status_request tid)])"
  using assms
  by (subst pollArtifact.simps)
     (auto simp: apiRequest_eq is_pending_def poll_decision_def split: sum.splits
        dest: get_field_throws_all)

lemma rounds_Suc: "rounds tid (Suc n) = [Request (status_request tid), Sleep 1000] @ rounds tid n"
  by (simp add: rounds_def)

lemma poll_skip:
  assumes "\<forall>j<n. is_pending (poll_reply srv tid (requests_of tr) j)" and "i + n \<le> 30"
  shows "pollArtifact js srv tid i tr = pollArtifact js srv tid (i + n) (tr @ rounds tid n)"
  using assms
proof (induction n arbitrary: i tr)
  case 0
  then show ?case by (simp add: rounds_def)
next
  case (Suc n)
  let ?sr = "status_request tid"
  let ?tr1 = "tr @ [Request ?sr, Sleep 1000]"
  from Suc.prems have p0: "is_pending (srv (requests_of tr) ?sr)"
    by (auto simp: poll_reply_def dest: spec [of _ 0])
  have shift: "poll_reply srv tid (requests_of ?tr1) j = poll_reply srv tid (requests_of tr) (Suc j)" for j
    by (simp add: poll_reply_def requests_of_append replicate_app_Cons_same)
  from Suc.prems have "\<forall>j<n. is_pending (poll_reply srv tid (requests_of ?tr1) j)"
    by (simp add: shift)
  moreover from Suc.prems have "Suc i + n \<le> 30" by simp
  ultimately have "pollArtifact js srv tid (Suc i) ?tr1 =
      pollArtifact js srv tid (Suc i + n) (?tr1 @ rounds tid n)"
    by (rule Suc.IH)
  moreover from Suc.prems have "i < 30" by simp
  ultimately show ?case
    using poll_pending [of i srv tr tid js] p0 by (simp add: rounds_Suc)
qed

lemma first_decisive:
  fixes P :: "nat \<Rightarrow> bool"
  shows "(\<forall>j<m. P j) \<or> (\<exists>n<m. (\<forall>j<n. P j) \<and> \<not> P n)"
proof (cases "\<forall>j<m. P j")
  case True
  then show ?thesis by simp
next
  case False
  then obtain k where k: "k < m" "\<not> P k" by auto
  define n where "n = (LEAST k. \<not> P k)"
  have "\<not> P n" unfolding n_def using k(2) by (rule LeastI)
  moreover have "n \<le> k" unfolding n_def using k(2) by (rule Least_le)
  moreover have "\<forall>j<n. P j" unfolding n_def using not_less_Least by blast
  ultimately have "n < m \<and> (\<forall>j<n. P j) \<and> \<not> P n" using k(1) by simp
  then show ?thesis by blast
qed

lemma poll_cases:
  fixes js srv tid tr
  defines "reply \<equiv> poll_reply srv tid (requests_of tr)"
  shows "(\<forall>j<30. is_pending (reply j)) \<and>
           pollArtifact js srv tid 0 tr = (Inr JNull, tr @ rounds tid 30)
       \<or> (\<exists>n<30. (\<forall>j<n. is_pending (reply j)) \<and> \<not> is_pending (reply n) \<and>
           pollArtifact js srv tid 0 tr =
             (poll_decision js (reply n), tr @ rounds tid n @ [Request (status_request tid)]))"
proof -
  consider (all) "\<forall>j<30. is_pending (reply j)"
    | (some) n where "n < 30" "\<forall>j<n. is_pending (reply j)" "\<not> is_pending (reply n)"
    using first_decisive [of 30 "\<lambda>j. is_pending (reply j)"] by blast
  then show ?thesis
  proof cases
    case all
    then have "pollArtifact js srv tid 0 tr = pollArtifact js srv tid (0 + 30) (tr @ rounds tid 30)"
      unfolding reply_def by (intro poll_skip) simp_all
    with all show ?thesis by (simp add: poll_done)
  next
    case some
    have skip: "pollArtifact js srv tid 0 tr = pollArtifact js srv tid (0 + n) (tr @ rounds tid n)"
      using some unfolding reply_def by (intro poll_skip) simp_all
    have here: "srv (requests_of (tr @ rounds tid n)) (status_request tid) = reply n"
      by (simp add: reply_def poll_reply_def requests_of_append requests_of_rounds)
    have "pollArtifact js srv tid n (tr @ rounds tid n) =
        (poll_decision js (reply n), (tr @ rounds tid n) @ [Request (status_request tid)])"
      using poll_decisive [of n srv "tr @ rounds tid n" tid js] some(1) some(3) here by simp
    with skip some show ?thesis by auto
  qed
qed

lemma poll_decision_truthy: "poll_decision js r = Inr aid \<Longrightarrow> truthy aid"
  by (auto simp: poll_decision_def split: sum.splits if_splits)

lemma wait_cases:
  fixes js srv tid tr
  defines "reply \<equiv> poll_reply srv tid (requests_of tr)"
  shows "(\<forall>j<30. is_pending (reply j)) \<and>
           waitForArtifact js srv tid tr = (Inl ''Timeout waiting for artifact'', tr @ rounds tid 30)
       \<or> (\<exists>n<30. (\<forall>j<n. is_pending (reply j)) \<and> \<not> is_pending (reply n) \<and>
           waitForArtifact js srv tid tr =
             (poll_decision js (reply n), tr @ rounds tid n @ [Request (status_request tid)]))"
proof -
  from poll_cases [of srv tid tr js]
  consider (all) "\<forall>j<30. is_pending (reply j)"
      "pollArtifact js srv tid 0 tr = (Inr JNull, tr @ rounds tid 30)"
    | (some) n where "n < 30" "\<forall>j<n. is_pending (reply j)" "\<not> is_pending (reply n)"
      "pollArtifact js srv tid 0 tr =
         (poll_decision js (reply n), tr @ rounds tid n @ [Request (status_request tid)])"
    unfolding reply_def by blast
  then show ?thesis
  proof cases
    case all
    then show ?thesis by (simp add: waitForArtifact_def io_bind_def throw_def)
  next
    case some
    have "waitForArtifact js srv tid tr =
         (poll_decision js (reply n), tr @ rounds tid n @ [Request (status_request tid)])"
    proof (cases "poll_decision js (reply n)")
      case (Inl e)
      with some(4) show ?thesis by (simp add: waitForArtifact_def io_bind_def)
    next
      case (Inr aid)
      with some(4) poll_decision_truthy [OF Inr] show ?thesis
        by (simp add: waitForArtifact_def io_bind_def ret_def)
    qed
    with some show ?thesis by blast
  qed
qed

lemma post_step_eq:
  "io_bind (apiRequest srv (req_method r) (req_endpoint r) (req_body r))
     (\<lambda>res. io_bind (expect_ok js what res) (\<lambda>_. lift (get_field (res_data res) key))) tr
   = (post_outcome js what key (srv (requests_of tr) r), tr @ [Request r])" for r :: request
  by (simp add: io_bind_def apiRequest_eq post_outcome_def expect_ok_def throw_def ret_def lift_def
      split: sum.splits)

lemma createSession_eq:
  "createSession js srv tr =
     (post_outcome js ''Failed to create session: '' ''session_id''
        (srv (requests_of tr) session_request), tr @ [Request session_request])"
  unfolding createSession_def by (rule post_step_eq)

lemma createArtifact_eq:
  "createArtifact js srv sid tr =
     (post_outcome js ''Failed to create artifact: '' ''task_id''
        (srv (requests_of tr) (artifact_request sid)), tr @ [Request (artifact_request sid)])"
  unfolding createArtifact_def by (rule post_step_eq)

lemma createRankTask_eq:
  "createRankTask js srv sid aid tr =
     (post_outcome js ''Failed to create rank task: '' ''task_id''
        (srv (requests_of tr) (rank_request sid aid)), tr @ [Request (rank_request sid aid)])"
  unfolding createRankTask_def by (rule post_step_eq)

lemma steps_eq:
  "rankTaskFlow_steps js srv m [] =
     (case checkParameterTypes m of
        Inl e \<Rightarrow> (Inl e, [])
      | Inr _ \<Rightarrow>
     (case post_outcome js ''Failed to create session: '' ''session_id'' (srv [] session_request) of
        Inl e \<Rightarrow> (Inl e, [Request session_request])
      | Inr sid \<Rightarrow>
     (case post_outcome js ''Failed to create artifact: '' ''task_id''
             (srv [session_request] (artifact_request sid)) of
        Inl e \<Rightarrow> (Inl e, [Request session_request, Request (artifact_request sid)])
      | Inr tid \<Rightarrow>
     (case waitForArtifact js srv tid [Request session_request, Request (artifact_request sid)] of
        (Inl e, tr) \<Rightarrow> (Inl e, tr)
      | (Inr aid, tr) \<Rightarrow>
     (case post_outcome js ''Failed to create rank task: '' ''task_id''
             (srv (requests_of tr) (rank_request sid aid)) of
        Inl e \<Rightarrow> (Inl e, tr @ [Request (rank_request sid aid)])
      | Inr rid \<Rightarrow>
          (Inr (JObj [(''sessionId'', sid), (''artifactId'', aid), (''rankTaskId'', rid)]),
           tr @ [Request (rank_request sid aid)]))))))"
  by (simp add: rankTaskFlow_steps_def io_bind_def lift_def ret_def createSession_eq
      createArtifact_eq createRankTask_eq split: sum.splits prod.splits)

lemma flow_cases [consumes 1, case_names check_fails session_fails artifact_fails timeout
    poll_fails rank_done]:
  assumes run: "testStartRankTaskFlow js srv m = (res, tr)"
  obtains
    (check_fails) e where
      "checkParameterTypes m = Inl e" "tr = []" "res = failed_result e"
  | (session_fails) e where
      "post_outcome js ''Failed to create session: '' ''session_id'' (srv [] session_request) = Inl e"
      "tr = [Request session_request]" "res = failed_result e"
  | (artifact_fails) sid e where
      "post_outcome js ''Failed to create session: '' ''session_id'' (srv [] session_request) = Inr sid"
      "post_outcome js ''Failed to create artifact: '' ''task_id''
         (srv [session_request] (artifact_request sid)) = Inl e"
      "tr = [Request session_request, Request (artifact_request sid)]" "res = failed_result e"
  | (timeout) sid tid where
      "post_outcome js ''Failed to create session: '' ''session_id'' (srv [] session_request) = Inr sid"
      "post_outcome js ''Failed to create artifact: '' ''task_id''
         (srv [session_request] (artifact_request sid)) = Inr tid"
      "\<forall>j<30. is_pending (poll_reply srv tid [session_request, artifact_request sid] j)"
      "tr = [Request session_request, Request (artifact_request sid)] @ rounds tid 30"
      "res = failed_result ''Timeout waiting for artifact''"
  | (poll_fails) sid tid n e where
      "post_outcome js ''Failed to create session: '' ''session_id'' (srv [] session_request) = Inr sid"
      "post_outcome js ''Failed to create artifact: '' ''task_id''
         (srv [session_request] (artifact_request sid)) = Inr tid"
      "n < 30"
      "\<forall>j<n. is_pending (poll_reply srv tid [session_request, artifact_request sid] j)"
      "\<not> is_pending (poll_reply srv tid [session_request, artifact_request sid] n)"
      "poll_decision js (poll_reply srv tid [session_request, artifact_request sid] n) = Inl e"
      "tr = [Request session_request, Request (artifact_request sid)] @ rounds tid n @
            [Request (status_request tid)]"
      "res = failed_result e"
  | (rank_done) sid tid n aid where
      "post_outcome js ''Failed to create session: '' ''session_id'' (srv [] session_request) = Inr sid"
      "post_outcome js ''Failed to create artifact: '' ''task_id''
         (srv [session_request] (artifact_request sid)) = Inr tid"
      "n < 30"
      "\<forall>j<n. is_pending (poll_reply srv tid [session_request, artifact_request sid] j)"
      "\<not> is_pending (poll_reply srv tid [session_request, artifact_request sid] n)"
      "poll_decision js (poll_reply srv tid [session_request, artifact_request sid] n) = Inr aid"
      "tr = [Request session_request, Request (artifact_request sid)] @ rounds tid n @
            [Request (status_request tid), Request (rank_request sid aid)]"
      "res = (case post_outcome js ''Failed to create rank task: '' ''task_id''
                     (srv ([session_request, artifact_request sid] @
                           replicate (Suc n) (status_request tid)) (rank_request sid aid)) of
                Inl e \<Rightarrow> failed_result e
              | Inr rid \<Rightarrow> passed_result
                  (JObj [(''sessionId'', sid), (''artifactId'', aid), (''rankTaskId'', rid)]))"
proof -
  let ?s = "post_outcome js ''Failed to create session: '' ''session_id'' (srv [] session_request)"
  note run' = run [unfolded testStartRankTaskFlow_def steps_eq]
  show ?thesis
  proof (cases "checkParameterTypes m")
    case (Inl e)
    with run' show ?thesis by (intro check_fails [of e]) (auto simp: failed_result_def)
  next
    case chk: (Inr c)
    show ?thesis
    proof (cases ?s)
      case (Inl e)
      with run' chk show ?thesis by (intro session_fails [of e]) (auto simp: failed_result_def)
    next
      case sid: (Inr sid)
      let ?a = "post_outcome js ''Failed to create artifact: '' ''task_id''
         (srv [session_request] (artifact_request sid))"
      show ?thesis
      proof (cases ?a)
        case (Inl e)
        with run' chk sid show ?thesis
          by (intro artifact_fails [of sid e]) (auto simp: failed_result_def)
      next
        case tid: (Inr tid)
        let ?tr = "[Request session_request, Request (artifact_request sid)]"
        have rq: "requests_of ?tr = [session_request, artifact_request sid]" by simp
        from wait_cases [of srv tid ?tr js, unfolded rq]
        consider (all) "\<forall>j<30. is_pending (poll_reply srv tid [session_request, artifact_request sid] j)"
            "waitForArtifact js srv tid ?tr = (Inl ''Timeout waiting for artifact'', ?tr @ rounds tid 30)"
          | (some) n where "n < 30"
            "\<forall>j<n. is_pending (poll_reply srv tid [session_request, artifact_request sid] j)"
            "\<not> is_pending (poll_reply srv tid [session_request, artifact_request sid] n)"
            "waitForArtifact js srv tid ?tr =
              (poll_decision js (poll_reply srv tid [session_request, artifact_request sid] n),
               ?tr @ rounds tid n @ [Request (status_request tid)])"
          by blast
        then show ?thesis
        proof cases
          case all
          with run' chk sid tid show ?thesis
            by (intro timeout [of sid tid]) (auto simp: failed_result_def)
        next
          case some
          show ?thesis
          proof (cases "poll_decision js (poll_reply srv tid [session_request, artifact_request sid] n)")
            case (Inl e)
            with run' chk sid tid some show ?thesis
              by (intro poll_fails [of sid tid n e]) (auto simp: failed_result_def)
          next
            case (Inr aid)
            with run' chk sid tid some show ?thesis
              by (intro rank_done [of sid tid n aid])
                 (auto simp: failed_result_def passed_result_def requests_of_append
                    requests_of_rounds replicate_append_same split: sum.splits)
          qed
        qed
      qed
    qed
  qed
qed





subsection \<open>The runs of the flow\<close>
















lemma poll_decision_Inr:
  assumes "poll_decision js r = Inr aid"
  shows "\<exists>x. r = Inr x \<and> get_field (res_data x) ''artifact_id'' = Inr aid \<and> truthy aid"
  using assms by (cases r) (auto simp: poll_decision_def split: sum.splits if_splits)



lemma payload_field_session: "payload_field session_request k \<noteq> Inr v"
  by (simp add: payload_field_def session_request_def obj_get_def object_prototype_def)

lemma payload_field_artifact:
  "payload_field (artifact_request sid) ''task_type'' = Inr (JStr ''create_group'')"
  by (simp add: payload_field_def artifact_request_def obj_get_def)

lemma payload_field_status: "payload_field (status_request tid) k \<noteq> Inr v"
  by (simp add: payload_field_def status_request_def)

lemma payload_field_rank:
  "payload_field (rank_request sid aid) ''task_type'' = Inr (JStr ''deep_rank'')"
  "payload_field (rank_request sid aid) ''input_artifacts'' = Inr (JArr [aid])"
  "payload_field (rank_request sid aid) ''context_artifacts'' = Inr (JArr [])"
  by (simp_all add: payload_field_def rank_request_def obj_get_def)

lemma truthy_not_null: "truthy v \<Longrightarrow> v \<noteq> JNull"
  by auto

lemmas flow_eval =
  testStartRankTaskFlow_def rankTaskFlow_steps_def io_bind_def lift_def ret_def throw_def
  createSession_def createArtifact_def createRankTask_def waitForArtifact_def expect_ok_def
  apiRequest_def sleep_def pollArtifact.simps checkParameterTypes_def
  api_scripted_def ok_reply_def obj_get_def object_prototype_def sample_module_def Let_def
  session_request_def artifact_request_def status_request_def rank_request_def

lemma sample_run:
 "testStartRankTaskFlow JSON_stringify sample_api sample_module
   = (passed_result (JObj [(''sessionId'', JStr ''s1''), (''artifactId'', JStr ''a1''),
                           (''rankTaskId'', JStr ''t2'')]),
      [Request session_request, Request (artifact_request (JStr ''s1'')),
       Request (status_request (JStr ''t1'')), Sleep 1000,
       Request (status_request (JStr ''t1'')),
       Request (rank_request (JStr ''s1'') (JStr ''a1''))])"
  by (simp add: flow_eval sample_api_def)


lemma sample_no_session_id_run:
 "testStartRankTaskFlow JSON_stringify sample_api_no_session_id sample_module
   = (passed_result (JObj [(''sessionId'', JUndefined), (''artifactId'', JStr ''a1''),
                           (''rankTaskId'', JStr ''t2'')]),
      [Request session_request, Request (artifact_request JUndefined),
       Request (status_request (JStr ''t1'')),
       Request (rank_request JUndefined (JStr ''a1''))])"
  by (simp add: flow_eval sample_api_no_session_id_def)

text \<open>
  C1, as the code has it. The flow has five steps: check the parameter types (no
  request), create the session, create the artifact, poll the status, create the rank
  task; no step fetches results. Its requests are, in this order, one
  \<open>POST /sessions/create\<close>, one \<open>POST /tasks\<close> that creates the artifact, between 1 and
  30 \<open>GET /tasks/<id>/status\<close>, and one \<open>POST /tasks\<close> that creates the rank task: a
  passed run makes all of them, a failed run a prefix of them.
\<close>

theorem rank_flow_order:
  assumes "testStartRankTaskFlow js srv m = (res, tr)"
  shows "\<exists>sid tid aid k. 1 \<le> k \<and> k \<le> 30 \<and>
           prefix (requests_of tr)
             ([session_request, artifact_request sid] @ replicate k (status_request tid) @
              [rank_request sid aid]) \<and>
           (test_passed res \<longrightarrow>
              requests_of tr =
                [session_request, artifact_request sid] @ replicate k (status_request tid) @
                [rank_request sid aid])"
  using assms
proof (cases rule: flow_cases)
  case (check_fails e)
  then have "1 \<le> (1::nat) \<and> (1::nat) \<le> 30 \<and>
           prefix (requests_of tr)
             ([session_request, artifact_request JNull] @ replicate 1 (status_request JNull) @
              [rank_request JNull JNull]) \<and>
           (test_passed res \<longrightarrow>
              requests_of tr =
                [session_request, artifact_request JNull] @ replicate 1 (status_request JNull) @
                [rank_request JNull JNull])"
    by (simp add: failed_result_def)
  then show ?thesis by blast
next
  case (session_fails e)
  then have "1 \<le> (1::nat) \<and> (1::nat) \<le> 30 \<and>
           prefix (requests_of tr)
             ([session_request, artifact_request JNull] @ replicate 1 (status_request JNull) @
              [rank_request JNull JNull]) \<and>
           (test_passed res \<longrightarrow>
              requests_of tr =
                [session_request, artifact_request JNull] @ replicate 1 (status_request JNull) @
                [rank_request JNull JNull])"
    by (simp add: failed_result_def)
  then show ?thesis by blast
next
  case (artifact_fails sid e)
  then have "1 \<le> (1::nat) \<and> (1::nat) \<le> 30 \<and>
           prefix (requests_of tr)
             ([session_request, artifact_request sid] @ replicate 1 (status_request JNull) @
              [rank_request sid JNull]) \<and>
           (test_passed res \<longrightarrow>
              requests_of tr =
                [session_request, artifact_request sid] @ replicate 1 (status_request JNull) @
                [rank_request sid JNull])"
    by (simp add: failed_result_def)
  then show ?thesis by blast
next
  case (timeout sid tid)
  then have "1 \<le> (30::nat) \<and> (30::nat) \<le> 30 \<and>
           prefix (requests_of tr)
             ([session_request, artifact_request sid] @ replicate 30 (status_request tid) @
              [rank_request sid JNull]) \<and>
           (test_passed res \<longrightarrow>
              requests_of tr =
                [session_request, artifact_request sid] @ replicate 30 (status_request tid) @
                [rank_request sid JNull])"
    by (simp add: failed_result_def requests_of_append requests_of_rounds)
  then show ?thesis by blast
next
  case (poll_fails sid tid n e)
  then have "1 \<le> Suc n \<and> Suc n \<le> 30 \<and>
           prefix (requests_of tr)
             ([session_request, artifact_request sid] @ replicate (Suc n) (status_request tid) @
              [rank_request sid JNull]) \<and>
           (test_passed res \<longrightarrow>
              requests_of tr =
                [session_request, artifact_request sid] @ replicate (Suc n) (status_request tid) @
                [rank_request sid JNull])"
    by (simp add: failed_result_def requests_of_append requests_of_rounds replicate_append_same)
  then show ?thesis by blast
next
  case (rank_done sid tid n aid)
  then have "1 \<le> Suc n \<and> Suc n \<le> 30 \<and>
           prefix (requests_of tr)
             ([session_request, artifact_request sid] @ replicate (Suc n) (status_request tid) @
              [rank_request sid aid]) \<and>
           (test_passed res \<longrightarrow>
              requests_of tr =
                [session_request, artifact_request sid] @ replicate (Suc n) (status_request tid) @
                [rank_request sid aid])"
    by (simp add: requests_of_append requests_of_rounds replicate_app_Cons_same)
  then show ?thesis by blast
qed

theorem rank_flow_order_witness:
  "testStartRankTaskFlow JSON_stringify sample_api sample_module =
     (fst (testStartRankTaskFlow JSON_stringify sample_api sample_module),
      snd (testStartRankTaskFlow JSON_stringify sample_api sample_module))
   \<and> test_passed (fst (testStartRankTaskFlow JSON_stringify sample_api sample_module))
   \<and> requests_of (snd (testStartRankTaskFlow JSON_stringify sample_api sample_module)) =
       [session_request, artifact_request (JStr ''s1'')] @
       replicate 2 (status_request (JStr ''t1'')) @ [rank_request (JStr ''s1'') (JStr ''a1'')]"
  using rank_flow_order [of JSON_stringify sample_api sample_module
      "fst (testStartRankTaskFlow JSON_stringify sample_api sample_module)"
      "snd (testStartRankTaskFlow JSON_stringify sample_api sample_module)"]
  by (simp add: sample_run passed_result_def numeral_2_eq_2)

text \<open>
  C1 as stated names fetch-results as the last step. On the sample API the run passes,
  and the request after the last status request, the last of the run, is the
  \<open>POST /tasks\<close> that submits the \<open>deep_rank\<close> task: nothing is fetched.
\<close>

theorem rank_flow_fetch_results_counterexample:
  "testStartRankTaskFlow JSON_stringify sample_api sample_module
     = (passed_result (JObj [(''sessionId'', JStr ''s1''), (''artifactId'', JStr ''a1''),
                             (''rankTaskId'', JStr ''t2'')]),
        [Request session_request, Request (artifact_request (JStr ''s1'')),
         Request (status_request (JStr ''t1'')), Sleep 1000,
         Request (status_request (JStr ''t1'')),
         Request (rank_request (JStr ''s1'') (JStr ''a1''))])
   \<and> req_method (rank_request (JStr ''s1'') (JStr ''a1'')) = ''POST''
   \<and> req_endpoint (rank_request (JStr ''s1'') (JStr ''a1'')) = ''/tasks''
   \<and> payload_field (rank_request (JStr ''s1'') (JStr ''a1'')) ''task_type'' = Inr (JStr ''deep_rank'')"
  by (simp add: flow_eval sample_api_def payload_field_def)



text \<open>
  C4. A request of the run whose payload has task type \<open>deep_rank\<close> is the last event
  of the run and comes right after the status request whose reply carried a truthy,
  hence non-null, \<open>artifact_id\<close>; its \<open>input_artifacts\<close> is the list of that one id,
  and its \<open>context_artifacts\<close> is empty.
\<close>

theorem rank_task_uses_artifact:
  assumes "testStartRankTaskFlow js srv m = (res, tr)"
    and "r \<in> set (requests_of tr)"
    and "payload_field r ''task_type'' = Inr (JStr ''deep_rank'')"
  shows "\<exists>sid tid n x aid. n < 30 \<and>
           tr = [Request session_request, Request (artifact_request sid)] @ rounds tid n @
                [Request (status_request tid), Request r] \<and>
           poll_reply srv tid [session_request, artifact_request sid] n = Inr x \<and>
           get_field (res_data x) ''artifact_id'' = Inr aid \<and> truthy aid \<and> aid \<noteq> JNull \<and>
           r = rank_request sid aid \<and>
           payload_field r ''input_artifacts'' = Inr (JArr [aid]) \<and>
           payload_field r ''context_artifacts'' = Inr (JArr [])"
  using assms(1)
proof (cases rule: flow_cases)
  case (check_fails e)
  with assms(2) show ?thesis by simp
next
  case (session_fails e)
  with assms(2,3) show ?thesis by (simp add: payload_field_session)
next
  case (artifact_fails sid e)
  with assms(2,3) show ?thesis
    by (auto simp: payload_field_session payload_field_artifact)
next
  case (timeout sid tid)
  with assms(2,3) show ?thesis
    by (auto simp: requests_of_append requests_of_rounds payload_field_session
        payload_field_artifact payload_field_status)
next
  case (poll_fails sid tid n e)
  with assms(2,3) show ?thesis
    by (auto simp: requests_of_append requests_of_rounds payload_field_session
        payload_field_artifact payload_field_status)
next
  case (rank_done sid tid n aid)
  with assms(2,3) have r: "r = rank_request sid aid"
    by (auto simp: requests_of_append requests_of_rounds payload_field_session
        payload_field_artifact payload_field_status)
  from poll_decision_Inr [OF rank_done(6)] obtain x where
    x: "poll_reply srv tid [session_request, artifact_request sid] n = Inr x"
      "get_field (res_data x) ''artifact_id'' = Inr aid" "truthy aid"
    by blast
  from rank_done(3,7) r x truthy_not_null [OF x(3)]
  have "n < 30 \<and>
           tr = [Request session_request, Request (artifact_request sid)] @ rounds tid n @
                [Request (status_request tid), Request r] \<and>
           poll_reply srv tid [session_request, artifact_request sid] n = Inr x \<and>
           get_field (res_data x) ''artifact_id'' = Inr aid \<and> truthy aid \<and> aid \<noteq> JNull \<and>
           r = rank_request sid aid \<and>
           payload_field r ''input_artifacts'' = Inr (JArr [aid]) \<and>
           payload_field r ''context_artifacts'' = Inr (JArr [])"
    by (simp add: payload_field_rank)
  then show ?thesis by blast
qed

theorem rank_task_uses_artifact_witness:
  "rank_request (JStr ''s1'') (JStr ''a1'') \<in>
     set (requests_of (snd (testStartRankTaskFlow JSON_stringify sample_api sample_module)))
   \<and> payload_field (rank_request (JStr ''s1'') (JStr ''a1'')) ''task_type'' = Inr (JStr ''deep_rank'')
   \<and> payload_field (rank_request (JStr ''s1'') (JStr ''a1'')) ''input_artifacts'' =
       Inr (JArr [JStr ''a1''])
   \<and> payload_field (rank_request (JStr ''s1'') (JStr ''a1'')) ''context_artifacts'' = Inr (JArr [])"
  using rank_task_uses_artifact [of JSON_stringify sample_api sample_module
      "fst (testStartRankTaskFlow JSON_stringify sample_api sample_module)"
      "snd (testStartRankTaskFlow JSON_stringify sample_api sample_module)"
      "rank_request (JStr ''s1'') (JStr ''a1'')"]
  by (simp add: sample_run payload_field_rank)




subsection \<open>The template processor\<close>












lemma strip_prefix_brace:
  assumes "c \<noteq> CHR ''{''"
  shows "strip_prefix (CHR ''{'' # q) (c # s) = None"
  using assms by simp









lemma replace_all_match:
  assumes "match_at p (c # m @ s) = Some (key, s)"
  shows "replace_all p cb (c # m @ s) =
         (case cb key of
            Inl e \<Rightarrow> Inl e
          | Inr v \<Rightarrow> (case replace_all p cb s of Inl e \<Rightarrow> Inl e | Inr out \<Rightarrow> Inr (toStr v @ out)))"
  using assms by (simp add: replace_all.simps)































subsection \<open>Validation of text parameters\<close>








subsection \<open>The deploy scripts\<close>

























































lemma attempt_error:
  assumes "fst (body tr) = Inl e"
  shows "fst (attempt c body tr) = Inr \<lparr>dr_success = False, dr_component = c, dr_error = Some e\<rparr>"
  using assms by (cases "body tr") (simp add: attempt_def)







end
